theory Spec2Isabelle
  imports Main
begin

section \<open>Telemetry forwarder: data model\<close>

text \<open>
  The program under study is the single script \<^verbatim>\<open>app.py\<close>. It validates a connection
  string at import time, selects simulated or live mode from the command line, connects a cloud
  client, and then forwards one record per tick forever.

  Python exceptions are values of \<open>exn\<close>. Only the class matters here. The classes
  \<open>KeyboardInterrupt\<close> and \<open>CancelledError\<close> derive from \<open>BaseException\<close> only, so
  the clause \<^verbatim>\<open>except Exception\<close> of \<open>main\<close> does not catch them; every other class
  derives from \<open>Exception\<close>. \<open>LibraryException\<close> stands for any ordinary exception raised
  by a collaborator outside the script (the serial library, the cloud client, the mock generator).
\<close>

datatype exn = TypeError | IndexError | UnboundLocalError | NameError | EOFError
  | LibraryException string | KeyboardInterrupt | CancelledError

fun is_Exception :: "exn \<Rightarrow> bool" where
  "is_Exception KeyboardInterrupt = False"
| "is_Exception CancelledError = False"
| "is_Exception _ = True"

text \<open>
  Python values that the script prints or sends. A dict is an association list in insertion
  order. \<open>PPercent fmt e\<close> is the text built by \<^verbatim>\<open>fmt % e\<close> for an exception \<open>e\<close>.
\<close>

datatype pyval = PNone | PStr string | PBool bool | PInt int
  | PList "pyval list" | PDict "(string \<times> pyval) list" | PPercent string exn

text \<open>The envelope class \<^verbatim>\<open>Message\<close> of the cloud SDK: a body and two settable attributes.\<close>

record message =
  msg_data :: pyval
  content_encoding :: "string option"
  content_type :: "string option"

text \<open>
  Every call that leaves the script is an event of the run's trace. \<open>SendMessage\<close> is the
  publish call \<^verbatim>\<open>device_client.send_message(msg)\<close>; \<open>SerialOpen path baud\<close> is
  \<^verbatim>\<open>serial.Serial(path, baud)\<close>; \<open>Readline h\<close> is \<^verbatim>\<open>readline()\<close> on the handle
  returned by the \<open>h\<close>-th open (counted from 0).
\<close>

datatype event =
    Print "pyval list"
  | CreateClient "string option"
  | GetEventLoop
  | Connect
  | SerialOpen string nat
  | Readline nat
  | MockTempHum
  | NewMessage pyval
  | SendMessage message
  | Sleep nat
  | Input string
  | Shutdown

text \<open>
  The mutable state: the trace so far, the module-level global \<^verbatim>\<open>SIMULATE_DATA\<close> (unbound
  until \<open>main\<close> assigns it), and how many opens, line reads and mock records have happened.
\<close>

record world =
  trace :: "event list"
  SIMULATE_DATA :: "bool option"
  opened :: nat
  lines_read :: nat
  mocks_made :: nat

text \<open>
  The collaborators outside the script are parameters of a run: whether creating and connecting
  the client fail, whether the \<open>k\<close>-th open of the serial port fails, what the \<open>k\<close>-th
  read of the run returns when it is made on handle \<open>h\<close> (the bytes of a line, or an
  exception; nothing is assumed about how the lines seen through different handles relate), what
  the \<open>k\<close>-th call of the mock generator returns, and what \<^verbatim>\<open>input\<close> returns.
\<close>

record env =
  create_outcome :: "exn option"
  connect_outcome :: "exn option"
  serial_open :: "nat \<Rightarrow> exn option"
  serial_readline :: "nat \<Rightarrow> nat \<Rightarrow> exn + string"
  mock_temp_hum :: "nat \<Rightarrow> exn + pyval"
  input_outcome :: "exn + string"

text \<open>
  A coroutine either returns, raises, or is still running when the fuel (the number of loop
  iterations observed) is used up. The process ends with an exit code, dies with the traceback of
  an uncaught exception (a non-zero exit status), or is still running.
\<close>

datatype 'a outcome = Returned 'a | Raised exn | Running

datatype exit = ExitCode nat | Traceback exn | StillRunning

section \<open>Message formatter\<close>

text \<open>
  \<^verbatim>\<open>data.split(",")\<close>: \<open>split_from cur s\<close> scans \<open>s\<close> with the current field \<open>cur\<close>;
  every comma closes a field, and the end of the text closes the last one, so the result is
  never empty.
\<close>

fun split_from :: "string \<Rightarrow> string \<Rightarrow> string list" where
  "split_from cur [] = [cur]"
| "split_from cur (c # cs) =
     (if c = CHR '','' then cur # split_from [] cs else split_from (cur @ [c]) cs)"

definition py_split :: "string \<Rightarrow> string list" where
  "py_split data = split_from [] data"

text \<open>Indexing a list with a non-negative constant raises \<open>IndexError\<close> out of range.\<close>

definition py_index :: "'a list \<Rightarrow> nat \<Rightarrow> exn + 'a" where
  "py_index xs i = (if i < length xs then Inr (xs ! i) else Inl IndexError)"

text \<open>
  The argument of \<open>format_message\<close> is a line: text (\<^verbatim>\<open>str\<close>), or bytes, which is what
  \<^verbatim>\<open>readline()\<close> of the serial library returns.
\<close>

datatype pydata = Text string | Bytes string

text \<open>
  \<^verbatim>\<open>
  def format_message(data):
      data_arr = data.split(",")
      return {"gas": data_arr[0], "co2": data_arr[1], "tvoc": data_arr[2]}
  \<close>
  The separator \<^verbatim>\<open>","\<close> is text, so \<^verbatim>\<open>split\<close> on bytes raises \<open>TypeError\<close>.
  On text the three subscripts are evaluated in order; the first one out of range raises.
\<close>

definition format_message :: "pydata \<Rightarrow> exn + pyval" where
  "format_message data =
     (case data of
        Bytes b \<Rightarrow> Inl TypeError
      | Text s \<Rightarrow>
         (let data_arr = py_split s in
          case py_index data_arr 0 of Inl e \<Rightarrow> Inl e | Inr g \<Rightarrow>
          case py_index data_arr 1 of Inl e \<Rightarrow> Inl e | Inr c \<Rightarrow>
          case py_index data_arr 2 of Inl e \<Rightarrow> Inl e | Inr t \<Rightarrow>
            Inr (PDict [(''gas'', PStr g), (''co2'', PStr c), (''tvoc'', PStr t)])))"

section \<open>Connection string validator\<close>

text \<open>
  The pattern \<^verbatim>\<open>HostName=.*;DeviceId=.*;\<close> uses two constructs: a literal character
  and \<^verbatim>\<open>.*\<close>, any run (also the empty one) of characters other than the line feed.
  \<open>match_here r s\<close> says that \<open>r\<close> matches a prefix of \<open>s\<close>; for \<^verbatim>\<open>.*\<close> the longer run
  is tried first and the matcher backtracks. \<open>re_search\<close> tries every start position, as
  \<^verbatim>\<open>re.search\<close> does.
\<close>

datatype rx = Lit char | AnyStar

fun match_here :: "rx list \<Rightarrow> string \<Rightarrow> bool" where
  "match_here [] s = True"
| "match_here (Lit c # r) [] = False"
| "match_here (Lit c # r) (x # xs) = (x = c \<and> match_here r xs)"
| "match_here (AnyStar # r) [] = match_here r []"
| "match_here (AnyStar # r) (x # xs) =
     ((x \<noteq> CHR 0x0A \<and> match_here (AnyStar # r) xs) \<or> match_here r (x # xs))"

fun re_search :: "rx list \<Rightarrow> string \<Rightarrow> bool" where
  "re_search r [] = match_here r []"
| "re_search r (x # xs) = (match_here r (x # xs) \<or> re_search r xs)"

definition connection_pattern :: "rx list" where
  "connection_pattern =
     map Lit ''HostName='' @ [AnyStar] @ map Lit '';DeviceId='' @ [AnyStar] @ [Lit CHR '';'']"

text \<open>
  \<^verbatim>\<open>
  def is_correct_connection_string():
      m = re.search("HostName=.*;DeviceId=.*;", CONNECTION_STRING)
      if m: return True
      else: return False
  \<close>
  The global \<^verbatim>\<open>CONNECTION_STRING\<close> is the result of \<^verbatim>\<open>os.getenv\<close>: \<open>None\<close> when the
  variable is not set, and then \<^verbatim>\<open>re.search\<close> raises \<open>TypeError\<close>.
\<close>

definition is_correct_connection_string :: "string option \<Rightarrow> exn + bool" where
  "is_correct_connection_string CONNECTION_STRING =
     (case CONNECTION_STRING of
        None \<Rightarrow> Inl TypeError
      | Some s \<Rightarrow> (if re_search connection_pattern s then Inr True else Inr False))"

section \<open>Mode selection\<close>

text \<open>
  \<^verbatim>\<open>str.lower()\<close> on the ASCII letters. No character outside ASCII has one of the letters
  of \<^verbatim>\<open>true\<close> as its lower case, so leaving the other characters alone does not change the
  comparison below.
\<close>

definition lower_char :: "char \<Rightarrow> char" where
  "lower_char c =
     (case map_of (zip ''ABCDEFGHIJKLMNOPQRSTUVWXYZ'' ''abcdefghijklmnopqrstuvwxyz'') c of
        Some d \<Rightarrow> d | None \<Rightarrow> c)"

definition lower :: "string \<Rightarrow> string" where
  "lower s = map lower_char s"

text \<open>
  \<^verbatim>\<open>
  if len(sys.argv) > 1: SIMULATE_DATA = sys.argv[1].lower() == "true"
  else:                 SIMULATE_DATA = True
  \<close>
\<close>

definition select_mode :: "string list \<Rightarrow> bool" where
  "select_mode argv = (if length argv > 1 then lower (argv ! 1) = ''true'' else True)"

section \<open>Effects\<close>

text \<open>
  \<^verbatim>\<open>MESSAGE_TIMESPAN = 2000\<close>; the loop sleeps \<^verbatim>\<open>MESSAGE_TIMESPAN/1000\<close> seconds, and
  1000 divides 2000 exactly.
\<close>

definition MESSAGE_TIMESPAN :: nat where
  "MESSAGE_TIMESPAN = 2000"

definition emit :: "event \<Rightarrow> world \<Rightarrow> world" where
  "emit ev w = w\<lparr>trace := trace w @ [ev]\<rparr>"

definition py_print :: "pyval list \<Rightarrow> world \<Rightarrow> world" where
  "py_print args w = emit (Print args) w"

text \<open>
  \<^verbatim>\<open>serial.Serial(path, baud)\<close> opens the port and returns a new handle, or raises.
  \<^verbatim>\<open>readline()\<close> on a handle returns a line as bytes, or raises.
  \<^verbatim>\<open>generate_mock_temp_hum_data()\<close> is imported from a module outside the script; its
  result is whatever the environment says.
\<close>

definition serial_Serial :: "env \<Rightarrow> string \<Rightarrow> nat \<Rightarrow> world \<Rightarrow> (exn + nat) \<times> world" where
  "serial_Serial E path baud w =
     (let h = opened w;
          w' = (emit (SerialOpen path baud) w)\<lparr>opened := Suc h\<rparr>
      in case serial_open E h of Some e \<Rightarrow> (Inl e, w') | None \<Rightarrow> (Inr h, w'))"

definition readline :: "env \<Rightarrow> nat \<Rightarrow> world \<Rightarrow> (exn + pydata) \<times> world" where
  "readline E h w =
     (let k = lines_read w;
          w' = (emit (Readline h) w)\<lparr>lines_read := Suc k\<rparr>
      in case serial_readline E h k of
           Inl e \<Rightarrow> (Inl e, w')
         | Inr b \<Rightarrow> (Inr (Bytes b), w'))"

definition generate_mock_temp_hum_data :: "env \<Rightarrow> world \<Rightarrow> (exn + pyval) \<times> world" where
  "generate_mock_temp_hum_data E w =
     (let k = mocks_made w;
          w' = (emit MockTempHum w)\<lparr>mocks_made := Suc k\<rparr>
      in (mock_temp_hum E k, w'))"

definition Message :: "pyval \<Rightarrow> world \<Rightarrow> message \<times> world" where
  "Message d w =
     (\<lparr>msg_data = d, content_encoding = None, content_type = None\<rparr>, emit (NewMessage d) w)"

text \<open>
  \<^verbatim>\<open>
  async def send_data(telemetry_data, device_client):
      print(telemetry_data)
      msg = Message(telemetry_data)
      msg.content_encoding = "utf-8"
      msg.content_type = "application/json"
      #print("Sending message: {}".format(msg))
      #await device_client.send_message(msg)
  \<close>
  The function returns nothing; the model returns the final value of the local \<open>msg\<close> next to
  the new state, so that the envelope can be inspected. The two last lines are comments in the
  source, so no \<open>SendMessage\<close> event is emitted.
\<close>

definition send_data :: "pyval \<Rightarrow> world \<Rightarrow> message \<times> world" where
  "send_data telemetry_data w =
     (let w1 = py_print [telemetry_data] w;
          (msg, w2) = Message telemetry_data w1;
          msg = msg\<lparr>content_encoding := Some ''utf-8''\<rparr>;
          msg = msg\<lparr>content_type := Some ''application/json''\<rparr>
      in (msg, w2))"

text \<open>
  One iteration of \<^verbatim>\<open>while True\<close> in \<open>send_recurring_telemetry\<close>:
  \<^verbatim>\<open>
  if SIMULATE_DATA:
      print("Simulating data")
      await send_data(generate_mock_temp_hum_data(), device_client)
  else:
      await send_data(format_message(serial1.readline()), device_client)
  time.sleep(MESSAGE_TIMESPAN/1000)
  \<close>
  \<open>serial1\<close> is the local variable holding the handle, unbound in simulated mode.
\<close>

definition tick :: "env \<Rightarrow> nat option \<Rightarrow> world \<Rightarrow> (exn + unit) \<times> world" where
  "tick E serial1 w =
     (case SIMULATE_DATA w of
        None \<Rightarrow> (Inl NameError, w)
      | Some sim \<Rightarrow>
         (case (if sim then
                  (let w1 = py_print [PStr ''Simulating data''] w in
                   case generate_mock_temp_hum_data E w1 of
                     (Inl e, w2) \<Rightarrow> (Inl e, w2)
                   | (Inr d, w2) \<Rightarrow> (Inr (), snd (send_data d w2)))
                else
                  (case serial1 of
                     None \<Rightarrow> (Inl UnboundLocalError, w)
                   | Some h \<Rightarrow>
                      (case readline E h w of
                         (Inl e, w1) \<Rightarrow> (Inl e, w1)
                       | (Inr line, w1) \<Rightarrow>
                          (case format_message line of
                             Inl e \<Rightarrow> (Inl e, w1)
                           | Inr d \<Rightarrow> (Inr (), snd (send_data d w1))))))
          of (Inl e, w') \<Rightarrow> (Inl e, w')
           | (Inr u, w') \<Rightarrow> (Inr (), emit (Sleep (MESSAGE_TIMESPAN div 1000)) w')))"

text \<open>
  The loop \<^verbatim>\<open>while True\<close> has no \<^verbatim>\<open>break\<close> and no \<^verbatim>\<open>return\<close>. With fuel for
  \<open>n\<close> iterations it either raises within them or is still running after them.
\<close>

fun streaming_loop :: "env \<Rightarrow> nat option \<Rightarrow> nat \<Rightarrow> world \<Rightarrow> unit outcome \<times> world" where
  "streaming_loop E serial1 0 w = (Running, w)"
| "streaming_loop E serial1 (Suc fuel) w =
     (case tick E serial1 w of
        (Inl e, w') \<Rightarrow> (Raised e, w')
      | (Inr u, w') \<Rightarrow> streaming_loop E serial1 fuel w')"

text \<open>
  The warm-up loop; \<open>warm_up E n\<close> is the remaining \<open>n\<close> iterations:
  \<^verbatim>\<open>
  for i in range(0, 15):
      print("Reading data from serial port")
      serial1 = serial.Serial('/dev/ttyACM0', 9600)
      serial1.readline()
  \<close>
  The port is opened inside the loop body, and the line that was read is dropped.
\<close>

fun warm_up :: "env \<Rightarrow> nat \<Rightarrow> nat option \<Rightarrow> world \<Rightarrow> (exn + nat option) \<times> world" where
  "warm_up E 0 serial1 w = (Inr serial1, w)"
| "warm_up E (Suc n) serial1 w =
     (let w1 = py_print [PStr ''Reading data from serial port''] w in
      case serial_Serial E ''/dev/ttyACM0'' 9600 w1 of
        (Inl e, w2) \<Rightarrow> (Inl e, w2)
      | (Inr h, w2) \<Rightarrow>
         (case readline E h w2 of
            (Inl e, w3) \<Rightarrow> (Inl e, w3)
          | (Inr l, w3) \<Rightarrow> warm_up E n (Some h) w3))"

text \<open>
  \<^verbatim>\<open>
  async def send_recurring_telemetry(device_client):
      await device_client.connect()
      if not SIMULATE_DATA:
          for i in range(0, 15): ...
      while True: ...
  \<close>
\<close>

definition send_recurring_telemetry :: "env \<Rightarrow> nat \<Rightarrow> world \<Rightarrow> unit outcome \<times> world" where
  "send_recurring_telemetry E fuel w =
     (let w0 = emit Connect w in
      case connect_outcome E of
        Some e \<Rightarrow> (Raised e, w0)
      | None \<Rightarrow>
         (case SIMULATE_DATA w0 of
            None \<Rightarrow> (Raised NameError, w0)
          | Some sim \<Rightarrow>
             (case (if \<not> sim then warm_up E 15 None w0 else (Inr None, w0)) of
                (Inl e, w1) \<Rightarrow> (Raised e, w1)
              | (Inr serial1, w1) \<Rightarrow> streaming_loop E serial1 fuel w1)))"

section \<open>The main coroutine and the process\<close>

text \<open>
  The first statements of the guarded block of \<open>main\<close>, up to the call of
  \<open>send_recurring_telemetry\<close>:
  \<^verbatim>\<open>
  global SIMULATE_DATA
  if len(sys.argv) > 1: SIMULATE_DATA = sys.argv[1].lower() == "true"
  else:                 SIMULATE_DATA = True
  print("SIMULATE_DATA: ", SIMULATE_DATA)
  device_client = IoTHubDeviceClient.create_from_connection_string(CONNECTION_STRING)
  print("argv: ", sys.argv)
  print("IoTHub Device Client Recurring Telemetry Sample")
  print("Press Ctrl+C to exit")
  loop = asyncio.get_event_loop()
  \<close>
\<close>

definition main_setup :: "env \<Rightarrow> string list \<Rightarrow> string option \<Rightarrow> world \<Rightarrow> (exn + unit) \<times> world" where
  "main_setup E argv CONNECTION_STRING w =
     (let sim = select_mode argv;
          w1 = w\<lparr>SIMULATE_DATA := Some sim\<rparr>;
          w2 = py_print [PStr ''SIMULATE_DATA: '', PBool sim] w1;
          w3 = emit (CreateClient CONNECTION_STRING) w2
      in case create_outcome E of
           Some e \<Rightarrow> (Inl e, w3)
         | None \<Rightarrow>
            (let w4 = py_print [PStr ''argv: '', PList (map PStr argv)] w3;
                 w5 = py_print [PStr ''IoTHub Device Client Recurring Telemetry Sample''] w4;
                 w6 = py_print [PStr ''Press Ctrl+C to exit''] w5;
                 w7 = emit GetEventLoop w6
             in (Inr (), w7)))"

text \<open>
  The whole guarded block. Its result carries whether the local \<open>device_client\<close> is bound
  when the block is left. After the call of \<open>send_recurring_telemetry\<close> come
  \<^verbatim>\<open>
  selection = input("Press Q to quit\n")
  if selection == "Q" or selection == "q":
      device_client.shutdown()
      print("Quitting...")
      return
  \<close>
\<close>

definition main_guarded ::
  "env \<Rightarrow> string list \<Rightarrow> string option \<Rightarrow> nat \<Rightarrow> world \<Rightarrow> (unit outcome \<times> bool) \<times> world" where
  "main_guarded E argv CONNECTION_STRING fuel w =
     (case main_setup E argv CONNECTION_STRING w of
        (Inl e, w1) \<Rightarrow> ((Raised e, False), w1)
      | (Inr u, w1) \<Rightarrow>
         (case send_recurring_telemetry E fuel w1 of
            (Raised e, w2) \<Rightarrow> ((Raised e, True), w2)
          | (Running, w2) \<Rightarrow> ((Running, True), w2)
          | (Returned u, w2) \<Rightarrow>
             (let w3 = emit (Input (''Press Q to quit'' @ [CHR 0x0A])) w2 in
              case input_outcome E of
                Inl e \<Rightarrow> ((Raised e, True), w3)
              | Inr selection \<Rightarrow>
                 (if selection = ''Q'' \<or> selection = ''q''
                  then ((Returned (), True), py_print [PStr ''Quitting...''] (emit Shutdown w3))
                  else ((Returned (), True), w3)))))"

text \<open>
  \<open>main\<close> adds the handler:
  \<^verbatim>\<open>
  except Exception as e:
      print("Unexpected error %s " % e)
      device_client.shutdown()
      print("Shutting down device client")
  \<close>
  When the client was never created, \<open>device_client\<close> is unbound in the handler and the
  handler itself raises.
\<close>

definition main :: "env \<Rightarrow> string list \<Rightarrow> string option \<Rightarrow> nat \<Rightarrow> world \<Rightarrow> unit outcome \<times> world" where
  "main E argv CONNECTION_STRING fuel w =
     (case main_guarded E argv CONNECTION_STRING fuel w of
        ((Raised e, device_client_bound), w1) \<Rightarrow>
          (if is_Exception e then
             (let w2 = py_print [PPercent ''Unexpected error %s '' e] w1 in
              if device_client_bound
              then (Returned (), py_print [PStr ''Shutting down device client''] (emit Shutdown w2))
              else (Raised UnboundLocalError, w2))
           else (Raised e, w1))
      | ((r, device_client_bound), w1) \<Rightarrow> (r, w1))"

definition initial_world :: world where
  "initial_world = \<lparr>trace = [], SIMULATE_DATA = None, opened = 0, lines_read = 0, mocks_made = 0\<rparr>"

text \<open>
  The module body, run from top to bottom:
  \<^verbatim>\<open>
  CONNECTION_STRING = os.getenv("IOTHUB_DEVICE_CONNECTION_STRING")
  if not is_correct_connection_string():
      print("Device connection string is not correct.")
      sys.exit(0)
  print("Device connection string is correct.")
  ...
  asyncio.run(main())
  \<close>
  An exception that nothing catches ends the process with a traceback.
\<close>

definition program :: "env \<Rightarrow> string option \<Rightarrow> string list \<Rightarrow> nat \<Rightarrow> exit \<times> event list" where
  "program E getenv argv fuel =
     (let CONNECTION_STRING = getenv in
      case is_correct_connection_string CONNECTION_STRING of
        Inl e \<Rightarrow> (Traceback e, trace initial_world)
      | Inr ok \<Rightarrow>
         (if \<not> ok then
            (ExitCode 0, trace (py_print [PStr ''Device connection string is not correct.''] initial_world))
          else
            (let w1 = py_print [PStr ''Device connection string is correct.''] initial_world in
             case main E argv CONNECTION_STRING fuel w1 of
               (Returned u, w2) \<Rightarrow> (ExitCode 0, trace w2)
             | (Raised e, w2) \<Rightarrow> (Traceback e, trace w2)
             | (Running, w2) \<Rightarrow> (StillRunning, trace w2))))"

section \<open>Vocabulary of the properties\<close>

text \<open>
  Case-insensitive equality, stated without \<open>lower\<close>: two texts have the same length and
  agree position by position up to the case of an ASCII letter.
\<close>

definition letter_pairs :: "(char \<times> char) list" where
  "letter_pairs = zip ''ABCDEFGHIJKLMNOPQRSTUVWXYZ'' ''abcdefghijklmnopqrstuvwxyz''"

definition same_letter :: "char \<Rightarrow> char \<Rightarrow> bool" where
  "same_letter c d = (c = d \<or> (c, d) \<in> set letter_pairs \<or> (d, c) \<in> set letter_pairs)"

definition caseless_eq :: "string \<Rightarrow> string \<Rightarrow> bool" where
  "caseless_eq s t = list_all2 same_letter s t"

text \<open>
  Kinds of events: the quit prompt, a publish call, and the routine events, which are all the
  others except a shutdown of the client.
\<close>

fun is_prompt :: "event \<Rightarrow> bool" where
  "is_prompt (Input p) = True"
| "is_prompt ev = False"

fun is_publish :: "event \<Rightarrow> bool" where
  "is_publish (SendMessage m) = True"
| "is_publish ev = False"

fun routine_event :: "event \<Rightarrow> bool" where
  "routine_event (Input p) = False"
| "routine_event (SendMessage m) = False"
| "routine_event Shutdown = False"
| "routine_event ev = True"

definition clean :: "world \<Rightarrow> bool" where
  "clean w = list_all routine_event (trace w)"

text \<open>
  The events of \<open>n\<close> warm-up iterations whose first open returns handle \<open>h\<close>; the events
  of \<open>n\<close> simulated ticks whose records are \<open>D k\<close>, \<open>D (k + 1)\<close>, ...; the events of a
  run up to the call of \<open>send_recurring_telemetry\<close>; and the events of the handler of
  \<open>main\<close>.
\<close>

fun warm_up_events :: "nat \<Rightarrow> nat \<Rightarrow> event list" where
  "warm_up_events h 0 = []"
| "warm_up_events h (Suc n) =
     [Print [PStr ''Reading data from serial port''], SerialOpen ''/dev/ttyACM0'' 9600, Readline h]
       @ warm_up_events (Suc h) n"


definition setup_events :: "string list \<Rightarrow> string \<Rightarrow> event list" where
  "setup_events argv cs =
     [Print [PStr ''Device connection string is correct.''],
      Print [PStr ''SIMULATE_DATA: '', PBool (select_mode argv)],
      CreateClient (Some cs),
      Print [PStr ''argv: '', PList (map PStr argv)],
      Print [PStr ''IoTHub Device Client Recurring Telemetry Sample''],
      Print [PStr ''Press Ctrl+C to exit''],
      GetEventLoop]"

definition handler_events :: "exn \<Rightarrow> event list" where
  "handler_events e =
     [Print [PPercent ''Unexpected error %s '' e], Shutdown,
      Print [PStr ''Shutting down device client'']]"

text \<open>
  Sample runs. In \<open>example_env\<close> nothing outside the script fails and every line of the
  device is a reading that ends in a line feed. The other environments differ from it in one
  place: the connection fails or is cancelled, the fourth open fails, the fourth read fails, the
  first read of the sending loop fails or is interrupted by the operator, the third mock record
  fails. The state \<open>live_world\<close> is a fresh state in live mode, and \<open>started_world\<close> is
  the state in which \<open>main\<close> starts.
\<close>

definition example_env :: env where
  "example_env = \<lparr>create_outcome = None, connect_outcome = None,
     serial_open = (\<lambda>k. None),
     serial_readline = (\<lambda>h k. Inr (''400,1,7'' @ [CHR 0x0A])),
     mock_temp_hum = (\<lambda>k. Inr (PDict [(''temp'', PInt 21), (''hum'', PInt 40)])),
     input_outcome = Inr ''q''\<rparr>"








definition live_world :: world where
  "live_world = initial_world\<lparr>SIMULATE_DATA := Some False\<rparr>"

definition started_world :: world where
  "started_world = py_print [PStr ''Device connection string is correct.''] initial_world"

definition valid_cs :: string where
  "valid_cs = ''HostName=h;DeviceId=d;''"

definition abc_env :: env where
  "abc_env = example_env\<lparr>serial_readline := (\<lambda>h k. Inr (''a,b,c'' @ [CHR 0x0A]))\<rparr>"

text \<open>The state in which \<open>send_recurring_telemetry\<close> is called, after a successful set-up.\<close>

definition ready_world :: "string list \<Rightarrow> string \<Rightarrow> world" where
  "ready_world argv cs =
     \<lparr>trace = setup_events argv cs, SIMULATE_DATA = Some (select_mode argv),
      opened = 0, lines_read = 0, mocks_made = 0\<rparr>"

section \<open>Properties of the formatter\<close>

lemma split_from_plain: "CHR '','' \<notin> set a \<Longrightarrow> split_from cur a = [cur @ a]"
  by (induction a arbitrary: cur) auto

lemma split_from_field:
  "CHR '','' \<notin> set a \<Longrightarrow> split_from cur (a @ CHR '','' # r) = (cur @ a) # split_from [] r"
  by (induction a arbitrary: cur) auto

lemma length_split_from:
  "length (split_from cur s) = Suc (length (filter (\<lambda>c. c = CHR '','') s))"
  by (induction s arbitrary: cur) auto

lemma split_three:
  assumes "CHR '','' \<notin> set a" "CHR '','' \<notin> set b" "CHR '','' \<notin> set c"
  shows "py_split (a @ '','' @ b @ '','' @ c) = [a, b, c]"
  using assms by (simp add: py_split_def split_from_field split_from_plain)

text \<open>
  Claim C4. For every text line \<open>a,b,c\<close> of exactly three fields, none of which contains a comma,
  \<open>format_message\<close> returns exactly the record with \<open>gas = a\<close>, \<open>co2 = b\<close> and
  \<open>tvoc = c\<close>, each value the text of the field, unconverted.
\<close>

theorem format_message_three_fields:
  assumes "CHR '','' \<notin> set a" "CHR '','' \<notin> set b" "CHR '','' \<notin> set c"
  shows "format_message (Text (a @ '','' @ b @ '','' @ c))
           = Inr (PDict [(''gas'', PStr a), (''co2'', PStr b), (''tvoc'', PStr c)])"
  using split_three [OF assms] by (simp add: format_message_def py_index_def)

theorem format_message_three_fields_witness:
  "CHR '','' \<notin> set ''400'' \<and> CHR '','' \<notin> set ''1'' \<and> CHR '','' \<notin> set ''7''
   \<and> format_message (Text ''400,1,7'')
     = Inr (PDict [(''gas'', PStr ''400''), (''co2'', PStr ''1''), (''tvoc'', PStr ''7'')])"
  using format_message_three_fields [of "''400''" "''1''" "''7''"] by simp

text \<open>
  Claim C5. A text line with fewer than three comma-separated fields, that is with fewer than two
  commas, makes \<open>format_message\<close> raise \<open>IndexError\<close>; no padded or partial record is
  returned.
\<close>

theorem format_message_too_few_fields:
  assumes "length (filter (\<lambda>c. c = CHR '','') line) < 2"
  shows "format_message (Text line) = Inl IndexError"
  using assms length_split_from [of "[]" line]
  by (auto simp: format_message_def py_split_def py_index_def Let_def)

theorem format_message_too_few_fields_witness:
  "length (filter (\<lambda>c. c = CHR '','') ''a,b'') < 2 \<and> format_message (Text ''a,b'') = Inl IndexError"
  using format_message_too_few_fields [of "''a,b''"] by simp

section \<open>Properties of the validator\<close>

lemma match_lits:
  "match_here (map Lit l @ r) s \<longleftrightarrow> (\<exists>t. s = l @ t \<and> match_here r t)"
proof (induction l arbitrary: s)
  case Nil
  then show ?case by simp
next
  case (Cons c l)
  then show ?case by (cases s) auto
qed

lemma match_anystar:
  "match_here (AnyStar # r) s \<longleftrightarrow>
     (\<exists>x t. s = x @ t \<and> CHR 0x0A \<notin> set x \<and> match_here r t)"
proof (induction s)
  case Nil
  then show ?case by simp
next
  case (Cons c s)
  show ?case
  proof
    assume "match_here (AnyStar # r) (c # s)"
    then consider "c \<noteq> CHR 0x0A" "match_here (AnyStar # r) s" | "match_here r (c # s)"
      by auto
    then show "\<exists>x t. c # s = x @ t \<and> CHR 0x0A \<notin> set x \<and> match_here r t"
    proof cases
      case 1
      with Cons obtain x t where "s = x @ t" "CHR 0x0A \<notin> set x" "match_here r t" by blast
      with 1 have "c # s = (c # x) @ t \<and> CHR 0x0A \<notin> set (c # x) \<and> match_here r t" by simp
      then show ?thesis by blast
    next
      case 2
      then have "c # s = [] @ (c # s) \<and> CHR 0x0A \<notin> set [] \<and> match_here r (c # s)" by simp
      then show ?thesis by blast
    qed
  next
    assume "\<exists>x t. c # s = x @ t \<and> CHR 0x0A \<notin> set x \<and> match_here r t"
    then obtain x t where xt: "c # s = x @ t" "CHR 0x0A \<notin> set x" "match_here r t" by blast
    show "match_here (AnyStar # r) (c # s)"
    proof (cases x)
      case Nil
      with xt have "match_here r (c # s)" by simp
      then show ?thesis by simp
    next
      case (Cons d x')
      with xt have "c = d" "s = x' @ t" "CHR 0x0A \<notin> set x'" "d \<noteq> CHR 0x0A" by auto
      with xt Cons.IH show ?thesis by auto
    qed
  qed
qed

lemma re_search_iff:
  "re_search r s \<longleftrightarrow> (\<exists>pre t. s = pre @ t \<and> match_here r t)"
proof (induction s)
  case Nil
  then show ?case by simp
next
  case (Cons c s)
  show ?case
  proof
    assume "re_search r (c # s)"
    then consider "match_here r (c # s)" | "re_search r s" by auto
    then show "\<exists>pre t. c # s = pre @ t \<and> match_here r t"
    proof cases
      case 1
      then have "c # s = [] @ (c # s) \<and> match_here r (c # s)" by simp
      then show ?thesis by blast
    next
      case 2
      with Cons obtain pre t where "s = pre @ t" "match_here r t" by blast
      then have "c # s = (c # pre) @ t \<and> match_here r t" by simp
      then show ?thesis by blast
    qed
  next
    assume "\<exists>pre t. c # s = pre @ t \<and> match_here r t"
    then obtain pre t where pt: "c # s = pre @ t" "match_here r t" by blast
    show "re_search r (c # s)"
    proof (cases pre)
      case Nil
      with pt have "match_here r (c # s)" by simp
      then show ?thesis by simp
    next
      case (Cons d pre')
      with pt have "s = pre' @ t" by simp
      with pt Cons.IH show ?thesis by auto
    qed
  qed
qed

lemma connection_pattern_match:
  "match_here connection_pattern t \<longleftrightarrow>
     (\<exists>X Y post. t = ''HostName='' @ X @ '';DeviceId='' @ Y @ '';'' @ post
        \<and> CHR 0x0A \<notin> set X \<and> CHR 0x0A \<notin> set Y)"
proof -
  have p: "connection_pattern =
      map Lit ''HostName='' @ (AnyStar # (map Lit '';DeviceId='' @ (AnyStar # (map Lit '';'' @ []))))"
    by (simp add: connection_pattern_def)
  have "match_here connection_pattern t \<longleftrightarrow>
      (\<exists>t1. t = ''HostName='' @ t1 \<and>
        (\<exists>X t2. t1 = X @ t2 \<and> CHR 0x0A \<notin> set X \<and>
          (\<exists>t3. t2 = '';DeviceId='' @ t3 \<and>
            (\<exists>Y t4. t3 = Y @ t4 \<and> CHR 0x0A \<notin> set Y \<and> (\<exists>post. t4 = '';'' @ post)))))"
    unfolding p match_lits match_anystar by (simp only: match_here.simps simp_thms)
  also have "\<dots> \<longleftrightarrow> (\<exists>X Y post. t = ''HostName='' @ X @ '';DeviceId='' @ Y @ '';'' @ post
        \<and> CHR 0x0A \<notin> set X \<and> CHR 0x0A \<notin> set Y)"
    by blast
  finally show ?thesis .
qed

text \<open>
  Claim C1, as amended. The validator returns true exactly for the texts that contain, somewhere,
  \<^verbatim>\<open>HostName=\<close> followed by a field \<open>X\<close>, \<^verbatim>\<open>;DeviceId=\<close>, a field \<open>Y\<close> and a
  semicolon, in this order, where \<open>X\<close> and \<open>Y\<close> may be empty and contain no line feed. A text
  that lacks one of the two field names or the closing semicolon is therefore rejected.
\<close>

theorem validator_characterisation:
  "is_correct_connection_string (Some s) =
     Inr (\<exists>pre X Y post.
            s = pre @ ''HostName='' @ X @ '';DeviceId='' @ Y @ '';'' @ post
            \<and> CHR 0x0A \<notin> set X \<and> CHR 0x0A \<notin> set Y)"
proof -
  have "re_search connection_pattern s \<longleftrightarrow>
      (\<exists>pre X Y post.
            s = pre @ ''HostName='' @ X @ '';DeviceId='' @ Y @ '';'' @ post
            \<and> CHR 0x0A \<notin> set X \<and> CHR 0x0A \<notin> set Y)"
    unfolding re_search_iff connection_pattern_match by blast
  then show ?thesis by (simp add: is_correct_connection_string_def)
qed

text \<open>
  The claim as first stated asks for non-empty fields and accepts every text of the shape
  \<^verbatim>\<open>HostName=X;DeviceId=Y;\<close> with non-empty fields. The validator accepts two empty
  fields, and it rejects a host name that contains a line feed.
\<close>

theorem validator_counterexample:
  "is_correct_connection_string (Some ''HostName=;DeviceId=;'') = Inr True
   \<and> is_correct_connection_string (Some (''HostName=a'' @ [CHR 0x0A] @ ''b;DeviceId=c;'')) = Inr False"
  by (simp add: is_correct_connection_string_def connection_pattern_def)

section \<open>Properties of mode selection\<close>

lemma lower_char_cases:
  "lower_char c = CHR ''t'' \<longleftrightarrow> same_letter c CHR ''t''"
  "lower_char c = CHR ''r'' \<longleftrightarrow> same_letter c CHR ''r''"
  "lower_char c = CHR ''u'' \<longleftrightarrow> same_letter c CHR ''u''"
  "lower_char c = CHR ''e'' \<longleftrightarrow> same_letter c CHR ''e''"
  by (auto simp: lower_char_def same_letter_def letter_pairs_def split: option.splits if_splits)

lemma lower_true: "lower a = ''true'' \<longleftrightarrow> caseless_eq a ''true''"
  by (auto simp: lower_def caseless_eq_def map_eq_Cons_conv list_all2_Cons2 lower_char_cases)

text \<open>
  Claim C8. The mode depends on the first positional argument only, read once when \<open>main\<close>
  starts: when it is present, simulated mode is selected exactly if it equals \<^verbatim>\<open>true\<close> up
  to case, and live mode otherwise; when it is absent, simulated mode is selected. The value is
  stored in the global \<open>SIMULATE_DATA\<close>.
\<close>

theorem mode_selection:
  "select_mode (prog # arg # rest) = caseless_eq arg ''true''
   \<and> select_mode [prog] = True
   \<and> SIMULATE_DATA (snd (main_setup E argv cs w)) = Some (select_mode argv)"
  by (simp add: select_mode_def lower_true main_setup_def Let_def py_print_def emit_def
      split: option.splits)

section \<open>Events of a run\<close>

lemma trace_emit: "trace (emit ev w) = trace w @ [ev]"
  by (simp add: emit_def)

lemma send_data_eq:
  "send_data d w =
     (\<lparr>msg_data = d, content_encoding = Some ''utf-8'', content_type = Some ''application/json''\<rparr>,
      w\<lparr>trace := trace w @ [Print [d], NewMessage d]\<rparr>)"
  by (simp add: send_data_def Message_def py_print_def emit_def)

lemma clean_emit: "clean w \<Longrightarrow> routine_event ev \<Longrightarrow> clean (emit ev w)"
  by (simp add: clean_def emit_def)

lemma clean_fields [simp]:
  "clean (w\<lparr>opened := a\<rparr>) = clean w"
  "clean (w\<lparr>lines_read := b\<rparr>) = clean w"
  "clean (w\<lparr>mocks_made := c\<rparr>) = clean w"
  "clean (w\<lparr>SIMULATE_DATA := d\<rparr>) = clean w"
  by (simp_all add: clean_def)

lemma clean_print: "clean w \<Longrightarrow> clean (py_print args w)"
  by (simp add: py_print_def clean_emit)

lemma clean_serial_Serial: "clean w \<Longrightarrow> clean (snd (serial_Serial E p b w))"
  by (simp add: serial_Serial_def Let_def clean_emit split: option.splits)

lemma clean_readline: "clean w \<Longrightarrow> clean (snd (readline E h w))"
  by (simp add: readline_def Let_def clean_emit split: sum.splits)

lemma clean_mock: "clean w \<Longrightarrow> clean (snd (generate_mock_temp_hum_data E w))"
  by (simp add: generate_mock_temp_hum_data_def Let_def clean_emit)

lemma clean_send_data: "clean w \<Longrightarrow> clean (snd (send_data d w))"
  by (simp add: send_data_eq clean_def)

lemma clean_tick: "clean w \<Longrightarrow> clean (snd (tick E s w))"
  by (simp add: tick_def Let_def split_beta clean_emit clean_send_data clean_print
      clean_mock clean_readline split: option.splits sum.splits)

lemma clean_streaming_loop: "clean w \<Longrightarrow> clean (snd (streaming_loop E s fuel w))"
  by (induction fuel arbitrary: w) (simp_all add: split_beta clean_tick split: sum.splits)

lemma clean_warm_up: "clean w \<Longrightarrow> clean (snd (warm_up E n s w))"
  by (induction n arbitrary: s w)
    (simp_all add: Let_def split_beta clean_print clean_serial_Serial clean_readline
      split: sum.splits)

lemma streaming_loop_never_returns: "fst (streaming_loop E s fuel w) \<noteq> Returned u"
  by (induction fuel arbitrary: w) (simp_all add: split_beta split: sum.splits)

lemma send_recurring_never_returns: "fst (send_recurring_telemetry E fuel w) \<noteq> Returned u"
  by (simp add: send_recurring_telemetry_def Let_def split_beta streaming_loop_never_returns
      split: option.splits sum.splits)

lemma clean_send_recurring: "clean w \<Longrightarrow> clean (snd (send_recurring_telemetry E fuel w))"
  by (simp add: send_recurring_telemetry_def Let_def split_beta clean_emit clean_warm_up
      clean_streaming_loop split: option.splits sum.splits)

lemma clean_main_setup: "clean w \<Longrightarrow> clean (snd (main_setup E argv cs w))"
  by (simp add: main_setup_def Let_def clean_emit clean_print split: option.splits)

lemma main_guarded_never_returns: "fst (fst (main_guarded E argv cs fuel w)) \<noteq> Returned u"
  using send_recurring_never_returns [of E fuel "snd (main_setup E argv cs w)"]
  by (simp add: main_guarded_def split_beta split: sum.splits outcome.splits)

lemma clean_main_guarded: "clean w \<Longrightarrow> clean (snd (main_guarded E argv cs fuel w))"
  using send_recurring_never_returns [of E fuel "snd (main_setup E argv cs w)"]
  by (simp add: main_guarded_def split_beta clean_main_setup clean_send_recurring
      split: sum.splits outcome.splits)

lemma main_events:
  assumes "clean w"
  shows "list_all (\<lambda>ev. routine_event ev \<or> ev = Shutdown) (trace (snd (main E argv cs fuel w)))"
proof -
  have "list_all routine_event (trace (snd (main_guarded E argv cs fuel w)))"
    using clean_main_guarded [OF assms] by (simp add: clean_def)
  then have "list_all (\<lambda>ev. routine_event ev \<or> ev = Shutdown)
      (trace (snd (main_guarded E argv cs fuel w)))"
    by (simp add: list_all_iff)
  then show ?thesis
    by (simp add: main_def Let_def split_beta py_print_def emit_def split: outcome.splits)
qed

lemma main_running_clean:
  assumes "clean w" "fst (main E argv cs fuel w) = Running"
  shows "clean (snd (main E argv cs fuel w))"
  using assms clean_main_guarded [OF assms(1), of E argv cs fuel]
  by (simp add: main_def Let_def split_beta split: outcome.splits if_splits)

lemma clean_start: "clean (py_print args initial_world)"
  by (simp add: clean_def initial_world_def py_print_def emit_def)

lemma program_events:
  "list_all (\<lambda>ev. routine_event ev \<or> ev = Shutdown) (snd (program E getenv argv fuel))"
  using main_events [OF clean_start, of E argv getenv fuel "[PStr ''Device connection string is correct.'']"]
  by (simp add: program_def Let_def split_beta initial_world_def py_print_def emit_def
      split: sum.splits outcome.splits)

lemma program_running_events:
  "fst (program E getenv argv fuel) = StillRunning \<Longrightarrow>
     list_all routine_event (snd (program E getenv argv fuel))"
  using main_running_clean [OF clean_start, of E argv getenv fuel "[PStr ''Device connection string is correct.'']"]
  by (simp add: program_def Let_def split_beta clean_def split: sum.splits outcome.splits if_splits)

text \<open>
  Claim C7. For every record, \<open>send_data\<close> first prints the record, then builds an envelope
  around it whose content encoding is \<^verbatim>\<open>utf-8\<close> and whose content type is
  \<^verbatim>\<open>application/json\<close>; it emits nothing else, and no run of the program ever performs a
  publish call on the cloud client.
\<close>

theorem send_data_envelope:
  "send_data d w =
     (\<lparr>msg_data = d, content_encoding = Some ''utf-8'', content_type = Some ''application/json''\<rparr>,
      w\<lparr>trace := trace w @ [Print [d], NewMessage d]\<rparr>)
   \<and> filter is_publish (snd (program E getenv argv fuel)) = []"
proof -
  have "\<not> is_publish ev" if "routine_event ev \<or> ev = Shutdown" for ev
    using that by (cases ev) auto
  with program_events [of E getenv argv fuel]
  have "filter is_publish (snd (program E getenv argv fuel)) = []"
    by (simp add: filter_empty_conv list_all_iff)
  with send_data_eq show ?thesis by simp
qed

text \<open>
  Claim C9. The quit prompt comes after the call of \<open>send_recurring_telemetry\<close>, which never
  returns normally: with any fuel it has raised or is still running. So the guarded block of
  \<open>main\<close> never completes, no run ever reaches the prompt, and a run in which nothing was
  raised (one that is still running) has not shut the client down.
\<close>

theorem quit_prompt_unreachable:
  "fst (send_recurring_telemetry E fuel w) \<noteq> Returned ()
   \<and> fst (fst (main_guarded E argv cs fuel w)) \<noteq> Returned ()
   \<and> filter is_prompt (snd (program E getenv argv fuel)) = []
   \<and> (fst (program E getenv argv fuel) = StillRunning \<longrightarrow>
        Shutdown \<notin> set (snd (program E getenv argv fuel)))"
proof -
  have p: "\<not> is_prompt ev" if "routine_event ev \<or> ev = Shutdown" for ev
    using that by (cases ev) auto
  with program_events [of E getenv argv fuel]
  have a: "filter is_prompt (snd (program E getenv argv fuel)) = []"
    by (simp add: filter_empty_conv list_all_iff)
  have b: "Shutdown \<notin> set (snd (program E getenv argv fuel))"
    if "fst (program E getenv argv fuel) = StillRunning"
    using program_running_events [OF that] by (auto simp: list_all_iff)
  from a b send_recurring_never_returns main_guarded_never_returns show ?thesis by blast
qed

theorem quit_prompt_witness:
  "fst (program example_env (Some ''HostName=h;DeviceId=d;'') [''app.py''] 2) = StillRunning
   \<and> Shutdown \<notin> set (snd (program example_env (Some ''HostName=h;DeviceId=d;'') [''app.py''] 2))"
proof -
  have h: "fst (program example_env (Some ''HostName=h;DeviceId=d;'') [''app.py''] 2) = StillRunning"
    by code_simp
  with quit_prompt_unreachable [of example_env 2 initial_world "[''app.py'']" "Some ''HostName=h;DeviceId=d;''"
      "Some ''HostName=h;DeviceId=d;''"]
  show ?thesis by blast
qed

text \<open>
  Claim C3. With the variable \<^verbatim>\<open>IOTHUB_DEVICE_CONNECTION_STRING\<close> not set,
  \<^verbatim>\<open>os.getenv\<close> returns \<open>None\<close> and the validator raises \<open>TypeError\<close> before anything
  is printed: the process dies with a traceback instead of printing the diagnostic and leaving
  with exit code 0. With the malformed value \<^verbatim>\<open>Foo=1\<close> the process prints the diagnostic
  and leaves with exit code 0, and nothing else happens. In both cases no connection is attempted
  and no record is sent.
\<close>

theorem startup_validation:
  "program E None argv fuel = (Traceback TypeError, [])
   \<and> program E (Some ''Foo=1'') argv fuel
       = (ExitCode 0, [Print [PStr ''Device connection string is not correct.'']])"
  by (simp add: program_def is_correct_connection_string_def connection_pattern_def
      initial_world_def py_print_def emit_def)

section \<open>Live mode\<close>

lemma all_less_first: "\<forall>j<Suc n. Q (a + j) (k + j) \<Longrightarrow> Q (a::nat) (k::nat)"
proof -
  assume h: "\<forall>j<Suc n. Q (a + j) (k + j)"
  have "0 < Suc n" by simp
  with h have "Q (a + 0) (k + 0)" by blast
  then show ?thesis by simp
qed

lemma all_less_shift:
  "\<forall>j<Suc n. Q (a + j) (k + j) \<Longrightarrow> \<forall>j<n. Q (Suc (a::nat) + j) (Suc (k::nat) + j)"
proof (intro allI impI)
  fix j
  assume h: "\<forall>j<Suc n. Q (a + j) (k + j)" and "j < n"
  then have "Suc j < Suc n" by simp
  with h have "Q (a + Suc j) (k + Suc j)" by blast
  then show "Q (Suc a + j) (Suc k + j)" by simp
qed

lemma readline_eq:
  "readline E h w =
     (case serial_readline E h (lines_read w) of Inl e \<Rightarrow> Inl e | Inr b \<Rightarrow> Inr (Bytes b),
      w\<lparr>trace := trace w @ [Readline h], lines_read := Suc (lines_read w)\<rparr>)"
  by (simp add: readline_def Let_def emit_def split: sum.splits)

lemma serial_Serial_eq:
  "serial_Serial E p b w =
     (case serial_open E (opened w) of Some e \<Rightarrow> Inl e | None \<Rightarrow> Inr (opened w),
      w\<lparr>trace := trace w @ [SerialOpen p b], opened := Suc (opened w)\<rparr>)"
  by (simp add: serial_Serial_def Let_def emit_def split: option.splits)

lemma warm_up_ok:
  assumes "\<forall>i<n. serial_open E (opened w + i) = None"
    and "\<forall>i<n. \<exists>b. serial_readline E (opened w + i) (lines_read w + i) = Inr b"
  shows "warm_up E n s w =
     (Inr (if n = 0 then s else Some (opened w + n - 1)),
      w\<lparr>trace := trace w @ warm_up_events (opened w) n,
        opened := opened w + n, lines_read := lines_read w + n\<rparr>)"
  using assms
proof (induction n arbitrary: s w)
  case 0
  then show ?case by simp
next
  case (Suc n)
  let ?w3 = "w\<lparr>trace := trace w @ [Print [PStr ''Reading data from serial port''],
                 SerialOpen ''/dev/ttyACM0'' 9600, Readline (opened w)],
               opened := Suc (opened w), lines_read := Suc (lines_read w)\<rparr>"
  have o0: "serial_open E (opened w) = None"
    by (rule all_less_first [where Q = "\<lambda>i j. serial_open E i = None" and k = 0, OF Suc.prems(1)])
  have "\<exists>b. serial_readline E (opened w) (lines_read w) = Inr b"
    by (rule all_less_first [where Q = "\<lambda>i j. \<exists>b. serial_readline E i j = Inr b",
          OF Suc.prems(2)])
  then obtain b where l0: "serial_readline E (opened w) (lines_read w) = Inr b" by blast
  have "\<forall>i<n. serial_open E (Suc (opened w) + i) = None"
    by (rule all_less_shift [where Q = "\<lambda>i j. serial_open E i = None" and k = 0, OF Suc.prems(1)])
  then have p1: "\<forall>i<n. serial_open E (opened ?w3 + i) = None" by simp
  have "\<forall>i<n. \<exists>b. serial_readline E (Suc (opened w) + i) (Suc (lines_read w) + i) = Inr b"
    by (rule all_less_shift [where Q = "\<lambda>i j. \<exists>b. serial_readline E i j = Inr b",
          OF Suc.prems(2)])
  then have p2: "\<forall>i<n. \<exists>b. serial_readline E (opened ?w3 + i) (lines_read ?w3 + i) = Inr b"
    by simp
  have "warm_up E (Suc n) s w = warm_up E n (Some (opened w)) ?w3"
    using o0 l0
    by (cases w) (simp add: Let_def serial_Serial_eq readline_eq py_print_def emit_def)
  also have "\<dots> = (Inr (if n = 0 then Some (opened w) else Some (opened ?w3 + n - 1)),
      ?w3\<lparr>trace := trace ?w3 @ warm_up_events (opened ?w3) n,
        opened := opened ?w3 + n, lines_read := lines_read ?w3 + n\<rparr>)"
    by (rule Suc.IH [OF p1 p2])
  also have "\<dots> = (Inr (if Suc n = 0 then s else Some (opened w + Suc n - 1)),
      w\<lparr>trace := trace w @ warm_up_events (opened w) (Suc n),
        opened := opened w + Suc n, lines_read := lines_read w + Suc n\<rparr>)"
    by (cases w) simp
  finally show ?case .
qed


lemma warm_up_events_snoc:
  "warm_up_events h (Suc n) =
     warm_up_events h n @
     [Print [PStr ''Reading data from serial port''], SerialOpen ''/dev/ttyACM0'' 9600,
      Readline (h + n)]"
  by (induction n arbitrary: h) simp_all



lemma live_tick_eq:
  assumes "SIMULATE_DATA w = Some False"
  shows "tick E (Some h) w =
     (Inl (case serial_readline E h (lines_read w) of Inl e \<Rightarrow> e | Inr b \<Rightarrow> TypeError),
      w\<lparr>trace := trace w @ [Readline h], lines_read := Suc (lines_read w)\<rparr>)"
  using assms
  by (cases w) (simp add: tick_def readline_eq format_message_def split: sum.splits)



lemma live_first_tick:
  assumes sim: "SIMULATE_DATA w = Some False"
    and fresh: "opened w = 0" "lines_read w = 0"
    and conn: "connect_outcome E = None"
    and ok1: "\<forall>i<15. serial_open E i = None"
    and ok2: "\<forall>i<15. \<exists>b. serial_readline E i i = Inr b"
  shows "send_recurring_telemetry E (Suc n) w =
     (Raised (case serial_readline E 14 15 of Inl e \<Rightarrow> e | Inr b \<Rightarrow> TypeError),
      w\<lparr>trace := trace w @ [Connect] @ warm_up_events 0 15 @ [Readline 14],
        opened := 15, lines_read := 16\<rparr>)"
proof -
  let ?w0 = "emit Connect w"
  let ?w1 = "?w0\<lparr>trace := trace ?w0 @ warm_up_events (opened ?w0) 15,
        opened := opened ?w0 + 15, lines_read := lines_read ?w0 + 15\<rparr>"
  have a1: "\<forall>i<15. serial_open E (opened ?w0 + i) = None"
    using ok1 fresh by (simp add: emit_def)
  have a2: "\<forall>i<15. \<exists>b. serial_readline E (opened ?w0 + i) (lines_read ?w0 + i) = Inr b"
    using ok2 fresh by (simp add: emit_def)
  have wu: "warm_up E 15 None ?w0 = (Inr (Some 14), ?w1)"
    using warm_up_ok [OF a1 a2, of None] fresh by (simp add: emit_def)
  have s1: "SIMULATE_DATA ?w1 = Some False" using sim by (simp add: emit_def)
  have l1: "lines_read ?w1 = 15" using fresh by (simp add: emit_def)
  have "send_recurring_telemetry E (Suc n) w = streaming_loop E (Some 14) (Suc n) ?w1"
    using sim conn wu by (simp add: send_recurring_telemetry_def Let_def emit_def)
  also have "\<dots> =
     (Raised (case serial_readline E 14 15 of Inl e \<Rightarrow> e | Inr b \<Rightarrow> TypeError),
      ?w1\<lparr>trace := trace ?w1 @ [Readline 14], lines_read := Suc (lines_read ?w1)\<rparr>)"
    by (simp add: live_tick_eq [OF s1] l1)
  also have "\<dots> =
     (Raised (case serial_readline E 14 15 of Inl e \<Rightarrow> e | Inr b \<Rightarrow> TypeError),
      w\<lparr>trace := trace w @ [Connect] @ warm_up_events 0 15 @ [Readline 14],
        opened := 15, lines_read := 16\<rparr>)"
    using fresh by (cases w) (simp add: emit_def)
  finally show ?thesis .
qed

lemma count_opens_warm_up:
  "count_list (warm_up_events h n) (SerialOpen ''/dev/ttyACM0'' 9600) = n"
  by (induction n arbitrary: h) simp_all

section \<open>Simulated mode\<close>




section \<open>Runtime faults\<close>

lemma main_setup_ready:
  "create_outcome E = None \<Longrightarrow>
     main_setup E argv (Some cs) started_world = (Inr (), ready_world argv cs)"
  by (simp add: main_setup_def Let_def started_world_def initial_world_def py_print_def emit_def
      ready_world_def setup_events_def)

lemma program_main:
  assumes "is_correct_connection_string (Some cs) = Inr True"
  shows "program E (Some cs) argv fuel =
      (case main E argv (Some cs) fuel started_world of
         (Returned u, w2) \<Rightarrow> (ExitCode 0, trace w2)
       | (Raised e, w2) \<Rightarrow> (Traceback e, trace w2)
       | (Running, w2) \<Rightarrow> (StillRunning, trace w2))"
proof -
  have sw: "py_print [PStr ''Device connection string is correct.''] initial_world = started_world"
    by (simp add: started_world_def)
  show ?thesis by (simp add: program_def Let_def assms sw)
qed

lemma program_caught:
  assumes "is_correct_connection_string (Some cs) = Inr True"
    and "create_outcome E = None"
    and "send_recurring_telemetry E fuel (ready_world argv cs) = (Raised e, w')"
    and "is_Exception e"
  shows "program E (Some cs) argv fuel = (ExitCode 0, trace w' @ handler_events e)"
proof -
  have g: "main_guarded E argv (Some cs) fuel started_world = ((Raised e, True), w')"
    by (simp add: main_guarded_def main_setup_ready [OF assms(2)] assms(3))
  have m: "main E argv (Some cs) fuel started_world =
      (Returned (),
       py_print [PStr ''Shutting down device client'']
         (emit Shutdown (py_print [PPercent ''Unexpected error %s '' e] w')))"
    using assms(4) by (simp add: main_def g Let_def)
  show ?thesis
    by (simp add: program_main [OF assms(1)] m py_print_def emit_def handler_events_def)
qed


lemma ready_world_fields:
  "trace (ready_world argv cs) = setup_events argv cs"
  "SIMULATE_DATA (ready_world argv cs) = Some (select_mode argv)"
  "opened (ready_world argv cs) = 0"
  "lines_read (ready_world argv cs) = 0"
  "mocks_made (ready_world argv cs) = 0"
  by (simp_all add: ready_world_def)

lemma valid_cs_ok: "is_correct_connection_string (Some valid_cs) = Inr True"
  by (simp add: is_correct_connection_string_def connection_pattern_def valid_cs_def)

lemma live_argv: "select_mode [''app.py'', ''false''] = False"
  by (simp add: select_mode_def lower_def lower_char_def)


lemma example_env_fields:
  "create_outcome example_env = None"
  "connect_outcome example_env = None"
  "serial_open example_env k = None"
  "serial_readline example_env h k = Inr (''400,1,7'' @ [CHR 0x0A])"
  by (simp_all add: example_env_def)

text \<open>
  Claim C2. The claim says that live mode opens the serial port exactly once and that every
  later read uses that same handle. In a live run of the script on a device that never fails,
  the open call on \<^verbatim>\<open>/dev/ttyACM0\<close> at 9600 baud happens fifteen times, once in every
  warm-up iteration, each followed by one read on the handle just opened; the sending loop then
  reads from the fifteenth handle. That first line of the sending loop does reach the formatter,
  which raises \<open>TypeError\<close> on it, so the run ends in the handler of \<open>main\<close>.
\<close>

theorem live_mode_reopens_port:
  "program example_env (Some valid_cs) [''app.py'', ''false''] (Suc n) =
     (ExitCode 0,
      setup_events [''app.py'', ''false''] valid_cs @ [Connect] @ warm_up_events 0 15
        @ [Readline 14] @ handler_events TypeError)
   \<and> count_list (snd (program example_env (Some valid_cs) [''app.py'', ''false''] (Suc n)))
        (SerialOpen ''/dev/ttyACM0'' 9600) = 15"
proof -
  let ?w = "ready_world [''app.py'', ''false''] valid_cs"
  have sim: "SIMULATE_DATA ?w = Some False" by (simp add: ready_world_fields live_argv)
  have ok1: "\<forall>i<15. serial_open example_env i = None" by (simp add: example_env_fields)
  have ok2: "\<forall>i<15. \<exists>b. serial_readline example_env i i = Inr b"
    by (simp add: example_env_fields)
  have r: "send_recurring_telemetry example_env (Suc n) ?w =
     (Raised TypeError,
      ?w\<lparr>trace := trace ?w @ [Connect] @ warm_up_events 0 15 @ [Readline 14],
        opened := 15, lines_read := 16\<rparr>)"
    using live_first_tick [OF sim ready_world_fields(3) ready_world_fields(4)
        example_env_fields(2) ok1 ok2, of n]
    by (simp add: example_env_fields)
  have p: "program example_env (Some valid_cs) [''app.py'', ''false''] (Suc n) =
     (ExitCode 0,
      setup_events [''app.py'', ''false''] valid_cs @ [Connect] @ warm_up_events 0 15
        @ [Readline 14] @ handler_events TypeError)"
    using program_caught [OF valid_cs_ok example_env_fields(1) r]
    by (simp add: ready_world_fields)
  show ?thesis
    unfolding p by (simp add: setup_events_def handler_events_def count_opens_warm_up)
qed

text \<open>
  Claim C10. On text the formatter trims nothing: the line \<^verbatim>\<open>a,b,c\<close> followed by a line
  feed gives a record whose \<open>tvoc\<close> value ends in the line feed. A serial read, however,
  delivers that line as bytes, and on bytes \<^verbatim>\<open>data.split(",")\<close> raises \<open>TypeError\<close>:
  the live tick that read the line prints nothing and builds no envelope, so no record with the
  line feed in \<open>tvoc\<close> is sent onward.
\<close>

theorem format_message_serial_line:
  "format_message (Text (''a,b,c'' @ [CHR 0x0A]))
     = Inr (PDict [(''gas'', PStr ''a''), (''co2'', PStr ''b''),
                   (''tvoc'', PStr (''c'' @ [CHR 0x0A]))])
   \<and> readline abc_env 14 live_world
     = (Inr (Bytes (''a,b,c'' @ [CHR 0x0A])),
        live_world\<lparr>trace := trace live_world @ [Readline 14],
          lines_read := Suc (lines_read live_world)\<rparr>)
   \<and> format_message (Bytes (''a,b,c'' @ [CHR 0x0A])) = Inl TypeError
   \<and> tick abc_env (Some 14) live_world
     = (Inl TypeError,
        live_world\<lparr>trace := trace live_world @ [Readline 14],
          lines_read := Suc (lines_read live_world)\<rparr>)"
proof -
  have l: "serial_readline abc_env 14 (lines_read live_world) = Inr (''a,b,c'' @ [CHR 0x0A])"
    by (simp add: abc_env_def)
  have s: "SIMULATE_DATA live_world = Some False" by (simp add: live_world_def)
  have a: "format_message (Text (''a,b,c'' @ [CHR 0x0A]))
     = Inr (PDict [(''gas'', PStr ''a''), (''co2'', PStr ''b''),
                   (''tvoc'', PStr (''c'' @ [CHR 0x0A]))])"
    by (simp add: format_message_def py_split_def py_index_def)
  have b: "readline abc_env 14 live_world
     = (Inr (Bytes (''a,b,c'' @ [CHR 0x0A])),
        live_world\<lparr>trace := trace live_world @ [Readline 14],
          lines_read := Suc (lines_read live_world)\<rparr>)"
    by (simp add: readline_eq l)
  have c: "format_message (Bytes (''a,b,c'' @ [CHR 0x0A])) = Inl TypeError"
    by (simp add: format_message_def)
  have d: "tick abc_env (Some 14) live_world
     = (Inl TypeError,
        live_world\<lparr>trace := trace live_world @ [Readline 14],
          lines_read := Suc (lines_read live_world)\<rparr>)"
    by (simp add: live_tick_eq [OF s] l)
  from a b c d show ?thesis by blast
qed




end
